theory Spec2Isabelle
  imports Complex_Main
begin

section \<open>Python values and exceptions\<close>

text \<open>
  The module \<^verbatim>\<open>alphapy/data.py\<close> is embedded function by function. An exception
  raised by the Python code is a value of \<open>pyerror\<close>; a function that may raise returns
  \<open>pyerror + 'a\<close> with \<open>Inl\<close> for the exception. Python floats are idealised as
  real numbers; the one float operation whose result is not a number (numpy's division
  by zero, which warns and yields \<open>inf\<close> or \<open>nan\<close> instead of raising) is kept apart
  in the type \<open>npfloat\<close>. The text of an exception raised by a library is shortened
  to its fixed prefix; the text of the exception raised by the module itself is exact.
\<close>

datatype pyerror =
    IndexError
  | KeyError string
  | ValueError string
  | TypeError
  | OverflowError
  | UnboundLocalError string
  | ZeroDivisionError

datatype npfloat = Finite real | NonFinite

definition np_true_divide :: "nat \<Rightarrow> nat \<Rightarrow> npfloat" where
  "np_true_divide a b = (if b = 0 then NonFinite else Finite (real a / real b))"

definition np_subtract :: "npfloat \<Rightarrow> real \<Rightarrow> npfloat" where
  "np_subtract a x = (case a of Finite r \<Rightarrow> Finite (r - x) | NonFinite \<Rightarrow> NonFinite)"

text \<open>\<^verbatim>\<open>xs[0]\<close> on a Python sequence: \<open>IndexError\<close> when it is empty.\<close>

definition first_item :: "'a list \<Rightarrow> pyerror + 'a" where
  "first_item xs = (case xs of [] \<Rightarrow> Inl IndexError | x # _ \<Rightarrow> Inr x)"

section \<open>Rebalancing: \<^verbatim>\<open>sample_data\<close>\<close>

subsection \<open>numpy helpers\<close>

text \<open>
  \<^verbatim>\<open>np.unique(y, return_counts=True)\<close>: the sorted distinct values of \<open>y\<close> and, for
  each, the number of times it occurs.
\<close>

definition np_unique :: "('a::linorder) list \<Rightarrow> 'a list \<times> nat list" where
  "np_unique y = (let uv = sort (remdups y) in (uv, map (count_list y) uv))"

text \<open>\<^verbatim>\<open>np.where(mask)[0]\<close>: the positions at which the mask holds, ascending.\<close>

definition np_where :: "bool list \<Rightarrow> nat list" where
  "np_where flags = filter (\<lambda>i. flags ! i) [0..<length flags]"

subsection \<open>The sampling methods and the samplers\<close>

text \<open>
  The enumeration \<^verbatim>\<open>SamplingMethod\<close> lives in \<^verbatim>\<open>alphapy.globals\<close>. Its members named
  by \<^verbatim>\<open>sample_data\<close> are the first thirteen constructors; \<open>other_method\<close> stands
  for any other value the configuration may hold, with the text \<^verbatim>\<open>%s\<close> prints for it.
\<close>

datatype SamplingMethod =
    under_random | under_tomek | under_cluster | under_nearmiss | under_ncr
  | over_random | over_smote | over_smoteb | over_smotesv
  | overunder_smote_tomek | overunder_smote_enn
  | ensemble_easy | ensemble_bc
  | other_method string

fun method_str :: "SamplingMethod \<Rightarrow> string" where
  "method_str under_random = ''SamplingMethod.under_random''"
| "method_str under_tomek = ''SamplingMethod.under_tomek''"
| "method_str under_cluster = ''SamplingMethod.under_cluster''"
| "method_str under_nearmiss = ''SamplingMethod.under_nearmiss''"
| "method_str under_ncr = ''SamplingMethod.under_ncr''"
| "method_str over_random = ''SamplingMethod.over_random''"
| "method_str over_smote = ''SamplingMethod.over_smote''"
| "method_str over_smoteb = ''SamplingMethod.over_smoteb''"
| "method_str over_smotesv = ''SamplingMethod.over_smotesv''"
| "method_str overunder_smote_tomek = ''SamplingMethod.overunder_smote_tomek''"
| "method_str overunder_smote_enn = ''SamplingMethod.overunder_smote_enn''"
| "method_str ensemble_easy = ''SamplingMethod.ensemble_easy''"
| "method_str ensemble_bc = ''SamplingMethod.ensemble_bc''"
| "method_str (other_method s) = s"

text \<open>The sampler objects of \<^verbatim>\<open>imblearn\<close>, with the arguments the module passes.\<close>

datatype sampler =
    RandomUnderSampler
  | TomekLinks
  | ClusterCentroids
  | NearMiss nat
  | NeighbourhoodCleaningRule nat
  | RandomOverSampler npfloat
  | SMOTE npfloat string
  | SMOTETomek npfloat
  | SMOTEENN npfloat
  | EasyEnsemble
  | BalanceCascade

record ('x, 'a) model =
  sampling_method :: SamplingMethod
  sampling_ratio :: real
  target_value :: 'a
  X_train :: 'x
  y_train :: "'a list"

subsection \<open>The three stages of \<^verbatim>\<open>sample_data\<close>\<close>

text \<open>
  Lines 232 to 235, the \<^verbatim>\<open>else\<close> branch of the ratio computation:
  \<^verbatim>\<open>
  uv, uc = np.unique(y_train, return_counts=True)
  target_index = np.where(uv == target_value)[0][0]
  nontarget_index = np.where(uv != target_value)[0][0]
  ratio = (uc[nontarget_index] / uc[target_index]) - 1.0
  \<close>
\<close>

definition estimate_ratio :: "('a::linorder) list \<Rightarrow> 'a \<Rightarrow> pyerror + npfloat" where
  "estimate_ratio y tv =
     (case np_unique y of (uv, uc) \<Rightarrow>
        (case first_item (np_where (map (\<lambda>v. v = tv) uv)) of
           Inl e \<Rightarrow> Inl e
         | Inr target_index \<Rightarrow>
             (case first_item (np_where (map (\<lambda>v. v \<noteq> tv) uv)) of
                Inl e \<Rightarrow> Inl e
              | Inr nontarget_index \<Rightarrow>
                  Inr (np_subtract (np_true_divide (uc ! nontarget_index) (uc ! target_index)) 1))))"

text \<open>Lines 229 to 235: the configured ratio when it is positive, the estimate otherwise.\<close>

definition sampling_ratio_of :: "('x, 'a::linorder) model \<Rightarrow> pyerror + npfloat" where
  "sampling_ratio_of m =
     (if sampling_ratio m > 0 then Inr (Finite (sampling_ratio m))
      else estimate_ratio (y_train m) (target_value m))"

text \<open>Lines 241 to 268: the \<^verbatim>\<open>if\<close>/\<^verbatim>\<open>elif\<close> chain that builds the sampler.\<close>

definition choose_sampler :: "SamplingMethod \<Rightarrow> npfloat \<Rightarrow> pyerror + sampler" where
  "choose_sampler meth ratio =
     (if meth = under_random then Inr RandomUnderSampler
      else if meth = under_tomek then Inr TomekLinks
      else if meth = under_cluster then Inr ClusterCentroids
      else if meth = under_nearmiss then Inr (NearMiss 1)
      else if meth = under_ncr then Inr (NeighbourhoodCleaningRule 51)
      else if meth = over_random then Inr (RandomOverSampler ratio)
      else if meth = over_smote then Inr (SMOTE ratio ''regular'')
      else if meth = over_smoteb then Inr (SMOTE ratio ''borderline1'')
      else if meth = over_smotesv then Inr (SMOTE ratio ''svm'')
      else if meth = overunder_smote_tomek then Inr (SMOTETomek ratio)
      else if meth = overunder_smote_enn then Inr (SMOTEENN ratio)
      else if meth = ensemble_easy then Inr EasyEnsemble
      else if meth = ensemble_bc then Inr BalanceCascade
      else Inl (ValueError (''Unknown Sampling Method '' @ method_str meth)))"

text \<open>
  The whole function. The model object is mutable, so the result is the exception raised
  (if any) together with the model as the call leaves it. \<open>fit_sample\<close> is the
  resampling of \<^verbatim>\<open>imblearn\<close>, a parameter: it may raise, or return the new X and y.
\<close>

definition sample_data ::
  "(sampler \<Rightarrow> 'x \<Rightarrow> 'a list \<Rightarrow> pyerror + 'x \<times> 'a list) \<Rightarrow> ('x, 'a::linorder) model
     \<Rightarrow> pyerror option \<times> ('x, 'a) model" where
  "sample_data fit_sample m =
     (case sampling_ratio_of m of
        Inl e \<Rightarrow> (Some e, m)
      | Inr ratio \<Rightarrow>
          (case choose_sampler (sampling_method m) ratio of
             Inl e \<Rightarrow> (Some e, m)
           | Inr smp \<Rightarrow>
               (case fit_sample smp (X_train m) (y_train m) of
                  Inl e \<Rightarrow> (Some e, m)
                | Inr (X, y) \<Rightarrow> (None, m\<lparr>X_train := X, y_train := y\<rparr>))))"

text \<open>The methods for which the chain of lines 241 to 266 has a branch.\<close>

definition supported_methods :: "SamplingMethod list" where
  "supported_methods =
     [under_random, under_tomek, under_cluster, under_nearmiss, under_ncr,
      over_random, over_smote, over_smoteb, over_smotesv,
      overunder_smote_tomek, overunder_smote_enn, ensemble_easy, ensemble_bc]"


text \<open>
  A stand-in for the resampling algorithm, used at the concrete inputs below: it returns
  the training set as it is.
\<close>

definition keep_all :: "sampler \<Rightarrow> unit \<Rightarrow> int list \<Rightarrow> pyerror + unit \<times> int list" where
  "keep_all s X y = Inr (X, y)"

section \<open>Strings\<close>

text \<open>
  \<^verbatim>\<open>str.split(sep)\<close> with a one-character separator: the pieces between the
  separators, the empty string giving one empty piece.
\<close>

fun split_on :: "char \<Rightarrow> string \<Rightarrow> string list" where
  "split_on c [] = [[]]"
| "split_on c (x # xs) =
     (if x = c then [] # split_on c xs
      else (case split_on c xs of [] \<Rightarrow> [[x]] | w # ws \<Rightarrow> (x # w) # ws))"

text \<open>\<^verbatim>\<open>str.upper()\<close> and \<^verbatim>\<open>str.lower()\<close>, on ASCII letters.\<close>

definition upper_char :: "char \<Rightarrow> char" where
  "upper_char c =
     (let n = (of_char c :: nat) in if 97 \<le> n \<and> n \<le> 122 then char_of (n - 32) else c)"

definition lower_char :: "char \<Rightarrow> char" where
  "lower_char c =
     (let n = (of_char c :: nat) in if 65 \<le> n \<and> n \<le> 90 then char_of (n + 32) else c)"

definition upper :: "string \<Rightarrow> string" where
  "upper s = map upper_char s"

definition lower :: "string \<Rightarrow> string" where
  "lower s = map lower_char s"

text \<open>
  \<^verbatim>\<open>re.findall('\d+', s)\<close>: the maximal runs of decimal digits of \<open>s\<close>, from left to
  right, and \<^verbatim>\<open>int\<close> of such a run.
\<close>

definition is_digit :: "char \<Rightarrow> bool" where
  "is_digit c = (let n = (of_char c :: nat) in 48 \<le> n \<and> n \<le> 57)"

fun digit_runs :: "string \<Rightarrow> string \<Rightarrow> string list" where
  "digit_runs cur [] = (if cur = [] then [] else [cur])"
| "digit_runs cur (c # cs) =
     (if is_digit c then digit_runs (cur @ [c]) cs
      else if cur = [] then digit_runs [] cs
      else cur # digit_runs [] cs)"

definition findall_digits :: "string \<Rightarrow> string list" where
  "findall_digits s = digit_runs [] s"

definition int_of_digits :: "string \<Rightarrow> int" where
  "int_of_digits s = foldl (\<lambda>a c. 10 * a + (of_char c - 48)) 0 s"

section \<open>Data frames\<close>

text \<open>
  A \<^verbatim>\<open>pandas.DataFrame\<close> as far as the module uses one: the index (with its name),
  and the columns in order, each a name and its values. A cell is a string (dtype
  object), a float, an integer, a boolean or a timestamp; a timestamp is identified
  with its seconds since the epoch.
\<close>

datatype cell = CStr string | CFloat real | CInt int | CBool bool | CTime real

record dataframe =
  index_name :: "string option"
  index :: "cell list"
  cols :: "(string \<times> cell list) list"

definition len :: "dataframe \<Rightarrow> nat" where
  "len df = length (index df)"

definition range_index :: "nat \<Rightarrow> cell list" where
  "range_index n = map (\<lambda>i. CInt (int i)) [0..<n]"

definition column_names :: "dataframe \<Rightarrow> string list" where
  "column_names df = map fst (cols df)"

text \<open>\<^verbatim>\<open>df[name]\<close>: \<open>KeyError\<close> when there is no such column.\<close>

definition get_col :: "dataframe \<Rightarrow> string \<Rightarrow> pyerror + cell list" where
  "get_col df name =
     (case map_of (cols df) name of None \<Rightarrow> Inl (KeyError name) | Some vs \<Rightarrow> Inr vs)"

text \<open>
  \<^verbatim>\<open>df[name] = values\<close>: the column is replaced where it stands, or added after the
  last one. The values the module assigns are computed from the frame itself, so they
  are as many as its rows.
\<close>

fun assign :: "string \<Rightarrow> cell list \<Rightarrow> (string \<times> cell list) list \<Rightarrow> (string \<times> cell list) list" where
  "assign name vs [] = [(name, vs)]"
| "assign name vs (p # ps) = (if fst p = name then (name, vs) # ps else p # assign name vs ps)"

definition set_col :: "dataframe \<Rightarrow> string \<Rightarrow> cell list \<Rightarrow> dataframe" where
  "set_col df name vs = df\<lparr>cols := assign name vs (cols df)\<rparr>"

text \<open>\<^verbatim>\<open>del df[name]\<close>.\<close>

definition del_col :: "dataframe \<Rightarrow> string \<Rightarrow> pyerror + dataframe" where
  "del_col df name =
     (if name \<in> set (column_names df)
      then Inr (df\<lparr>cols := filter (\<lambda>p. fst p \<noteq> name) (cols df)\<rparr>)
      else Inl (KeyError name))"

text \<open>\<^verbatim>\<open>df.index = df[name]\<close>: the column becomes the index and gives it its name.\<close>

definition set_index :: "dataframe \<Rightarrow> string \<Rightarrow> pyerror + dataframe" where
  "set_index df name =
     (case get_col df name of
        Inl e \<Rightarrow> Inl e
      | Inr vs \<Rightarrow> Inr (df\<lparr>index_name := Some name, index := vs\<rparr>))"

text \<open>
  \<^verbatim>\<open>pd.DataFrame.from_records(records, columns=names)\<close> for records of seven fields:
  one column per field, and the default index \<open>0, 1, ...\<close>.
\<close>

type_synonym record7 = "cell \<times> cell \<times> cell \<times> cell \<times> cell \<times> cell \<times> cell"

definition from_records :: "record7 list \<Rightarrow> string list \<Rightarrow> dataframe" where
  "from_records records names =
     \<lparr>index_name = None,
      index = range_index (length records),
      cols = zip names
        [map (\<lambda>(a, b, c, d, e, f, g). a) records,
         map (\<lambda>(a, b, c, d, e, f, g). b) records,
         map (\<lambda>(a, b, c, d, e, f, g). c) records,
         map (\<lambda>(a, b, c, d, e, f, g). d) records,
         map (\<lambda>(a, b, c, d, e, f, g). e) records,
         map (\<lambda>(a, b, c, d, e, f, g). f) records,
         map (\<lambda>(a, b, c, d, e, f, g). g) records]\<rparr>"

text \<open>
  A function that may raise, applied along a list: the first exception ends it.
\<close>

fun map_raise :: "('a \<Rightarrow> pyerror + 'b) \<Rightarrow> 'a list \<Rightarrow> pyerror + 'b list" where
  "map_raise f [] = Inr []"
| "map_raise f (x # xs) =
     (case f x of
        Inl e \<Rightarrow> Inl e
      | Inr y \<Rightarrow> (case map_raise f xs of Inl e \<Rightarrow> Inl e | Inr ys \<Rightarrow> Inr (y # ys)))"

text \<open>
  \<^verbatim>\<open>df[names] = df[names].astype(t)\<close>: every cell of the named columns is converted,
  and the first cell that cannot be converted raises.
\<close>

fun astype :: "(cell \<Rightarrow> pyerror + cell) \<Rightarrow> string list \<Rightarrow> dataframe \<Rightarrow> pyerror + dataframe" where
  "astype conv [] df = Inr df"
| "astype conv (name # names) df =
     (case get_col df name of
        Inl e \<Rightarrow> Inl e
      | Inr vs \<Rightarrow>
          (case map_raise conv vs of
             Inl e \<Rightarrow> Inl e
           | Inr ws \<Rightarrow> astype conv names (set_col df name ws)))"

text \<open>
  \<^verbatim>\<open>df.groupby(name)\<close> keeps the values of the key column as they are at the call.
  \<^verbatim>\<open>cumcount()\<close> numbers the rows of each group from 0 in row order: a running count
  per key. \<^verbatim>\<open>tail(1)\<close> keeps the rows whose count from the end of their group is
  below 1, and \<^verbatim>\<open>.index\<close> gives their labels.
\<close>

fun cumcount_from :: "('k \<Rightarrow> nat) \<Rightarrow> 'k list \<Rightarrow> nat list" where
  "cumcount_from seen [] = []"
| "cumcount_from seen (k # ks) = seen k # cumcount_from (seen(k := Suc (seen k))) ks"

definition cumcount :: "'k list \<Rightarrow> nat list" where
  "cumcount ks = cumcount_from (\<lambda>k. 0) ks"

definition tail1_index :: "cell list \<Rightarrow> 'k list \<Rightarrow> cell list" where
  "tail1_index labels ks =
     map fst (filter (\<lambda>(lab, c). c < 1) (zip labels (rev (cumcount (rev ks)))))"

text \<open>\<^verbatim>\<open>df.loc[labels, name] = v\<close>: the cells of the rows whose label is listed.\<close>

definition loc_set :: "dataframe \<Rightarrow> cell list \<Rightarrow> string \<Rightarrow> cell \<Rightarrow> pyerror + dataframe" where
  "loc_set df labels name v =
     (case get_col df name of
        Inl e \<Rightarrow> Inl e
      | Inr vs \<Rightarrow>
          Inr (set_col df name
                 (map (\<lambda>(lab, old). if lab \<in> set labels then v else old) (zip (index df) vs))))"

text \<open>
  \<^verbatim>\<open>df.reset_index(level=0, inplace=True)\<close>: the index becomes the first column, under
  its name (\<^verbatim>\<open>index\<close> when it has none), and the default index replaces it.
\<close>

definition reset_index :: "dataframe \<Rightarrow> pyerror + dataframe" where
  "reset_index df =
     (let name = (case index_name df of
                    Some n \<Rightarrow> n
                  | None \<Rightarrow> if ''index'' \<in> set (column_names df) then ''level_0'' else ''index'')
      in if name \<in> set (column_names df) then Inl (ValueError ''cannot insert, already exists'')
         else Inr \<lparr>index_name = None, index = range_index (len df),
                   cols = (name, index df) # cols df\<rparr>)"

definition rename_columns :: "(string \<Rightarrow> string) \<Rightarrow> dataframe \<Rightarrow> dataframe" where
  "rename_columns f df = df\<lparr>cols := map (\<lambda>(n, vs). (f n, vs)) (cols df)\<rparr>"

section \<open>The Python runtime and the outside world\<close>

text \<open>
  What the module calls and does not define is a parameter of the model:
  \<^item> \<open>py_float\<close> and \<open>py_int\<close>: the builtins \<^verbatim>\<open>float\<close> and \<^verbatim>\<open>int\<close> on a string,
    \<open>None\<close> when they raise \<open>ValueError\<close>;
  \<^item> \<open>fromtimestamp\<close>: \<^verbatim>\<open>datetime.fromtimestamp\<close>, \<open>None\<close> when the value is out of
    the range of the platform;
  \<^item> \<open>strftime_date\<close>: \<^verbatim>\<open>dt.strftime('%Y-%m-%d')\<close>, the calendar date in local time;
  \<^item> \<open>to_datetime\<close>: \<^verbatim>\<open>pd.to_datetime\<close> on one cell of a column;
  \<^item> \<open>requests_get\<close>: the text of the response to the request built from the symbol,
    the interval and the lookback period;
  \<^item> \<open>data_reader\<close>: \<^verbatim>\<open>web.DataReader(symbol, 'yahoo', start, end)\<close> for the range
    ending now that the lookback period gives.
\<close>

record pyenv =
  py_float :: "string \<Rightarrow> real option"
  py_int :: "string \<Rightarrow> int option"
  fromtimestamp :: "real \<Rightarrow> real option"
  strftime_date :: "real \<Rightarrow> string"
  to_datetime :: "cell \<Rightarrow> real option"
  requests_get :: "string \<times> int \<times> int \<Rightarrow> string"
  data_reader :: "string \<times> int \<Rightarrow> dataframe"

text \<open>The conversions of \<^verbatim>\<open>astype(float)\<close> and \<^verbatim>\<open>astype(int)\<close> on one cell.\<close>

definition to_float :: "pyenv \<Rightarrow> cell \<Rightarrow> pyerror + cell" where
  "to_float env c =
     (case c of
        CStr s \<Rightarrow> (case py_float env s of
                     None \<Rightarrow> Inl (ValueError ''could not convert string to float'')
                   | Some x \<Rightarrow> Inr (CFloat x))
      | CFloat x \<Rightarrow> Inr (CFloat x)
      | CInt n \<Rightarrow> Inr (CFloat (real_of_int n))
      | CBool b \<Rightarrow> Inr (CFloat (if b then 1 else 0))
      | CTime t \<Rightarrow> Inl TypeError)"

definition to_int :: "pyenv \<Rightarrow> cell \<Rightarrow> pyerror + cell" where
  "to_int env c =
     (case c of
        CStr s \<Rightarrow> (case py_int env s of
                     None \<Rightarrow> Inl (ValueError ''invalid literal for int() with base 10'')
                   | Some n \<Rightarrow> Inr (CInt n))
      | CFloat x \<Rightarrow> Inr (CInt (if x < 0 then \<lceil>x\<rceil> else \<lfloor>x\<rfloor>))
      | CInt n \<Rightarrow> Inr (CInt n)
      | CBool b \<Rightarrow> Inr (CInt (if b then 1 else 0))
      | CTime t \<Rightarrow> Inl TypeError)"

definition to_time :: "pyenv \<Rightarrow> cell \<Rightarrow> pyerror + cell" where
  "to_time env c =
     (case to_datetime env c of
        None \<Rightarrow> Inl (ValueError ''Unknown string format'')
      | Some t \<Rightarrow> Inr (CTime t))"

section \<open>Intraday data: \<^verbatim>\<open>get_google_data\<close>\<close>

subsection \<open>The loop over the lines of the response\<close>

text \<open>
  Lines 340 to 344. The time marker is decoded against \<open>day_item\<close>, the day base seen
  last, which is \<open>None\<close> as long as the Python variable is unbound. The result is the
  day base after the line and the offset.
  \<^verbatim>\<open>
  if dt_item[0] == 'a':
      day_item = float(dt_item[1:])
      offset = 0
  else:
      offset = float(dt_item)
  \<close>
\<close>

definition decode_marker :: "pyenv \<Rightarrow> real option \<Rightarrow> string \<Rightarrow> pyerror + real option \<times> real" where
  "decode_marker env day_item dt_item =
     (case dt_item of
        [] \<Rightarrow> Inl IndexError
      | c # rest \<Rightarrow>
          if c = CHR ''a'' then
            (case py_float env rest of
               None \<Rightarrow> Inl (ValueError ''could not convert string to float'')
             | Some d \<Rightarrow> Inr (Some d, 0))
          else
            (case py_float env dt_item of
               None \<Rightarrow> Inl (ValueError ''could not convert string to float'')
             | Some off \<Rightarrow> Inr (day_item, off)))"

text \<open>
  Lines 332 to 349, one turn of the loop. The state is \<open>day_item\<close> and the records
  appended so far. A line that does not split into \<open>line_length = 6\<close> items leaves the
  state as it is.
\<close>

definition parse_line ::
  "pyenv \<Rightarrow> int \<Rightarrow> real option \<times> record7 list \<Rightarrow> string \<Rightarrow> pyerror + real option \<times> record7 list" where
  "parse_line env interval st line =
     (let items = split_on CHR '','' line in
      if length items = 6 then
        (let dt_item = items ! 0;
             close_item = items ! 1;
             high_item = items ! 2;
             low_item = items ! 3;
             open_item = items ! 4;
             volume_item = items ! 5
         in case decode_marker env (fst st) dt_item of
              Inl e \<Rightarrow> Inl e
            | Inr (day_item, offset) \<Rightarrow>
                (case day_item of
                   None \<Rightarrow> Inl (UnboundLocalError ''day_item'')
                 | Some d \<Rightarrow>
                     (case fromtimestamp env (d + real_of_int interval * offset) of
                        None \<Rightarrow> Inl OverflowError
                      | Some dt \<Rightarrow>
                          Inr (day_item,
                               snd st @ [(CTime dt, CStr (strftime_date env dt), CStr open_item,
                                          CStr high_item, CStr low_item, CStr close_item,
                                          CStr volume_item)]))))
      else Inr st)"

fun parse_lines ::
  "pyenv \<Rightarrow> int \<Rightarrow> real option \<times> record7 list \<Rightarrow> string list \<Rightarrow> pyerror + real option \<times> record7 list" where
  "parse_lines env interval st [] = Inr st"
| "parse_lines env interval st (line # lines) =
     (case parse_line env interval st line of
        Inl e \<Rightarrow> Inl e
      | Inr st' \<Rightarrow> parse_lines env interval st' lines)"

subsection \<open>From the records to the frame\<close>

text \<open>Lines 351 to 368.\<close>

definition build_frame :: "pyenv \<Rightarrow> record7 list \<Rightarrow> pyerror + dataframe" where
  "build_frame env records =
     (let df = from_records records
                 [''datetime'', ''date'', ''open'', ''high'', ''low'', ''close'', ''volume'']
      in case astype (to_float env) [''open'', ''high'', ''low'', ''close''] df of
           Inl e \<Rightarrow> Inl e
         | Inr df \<Rightarrow>
        (case astype (to_int env) [''volume''] df of
           Inl e \<Rightarrow> Inl e
         | Inr df \<Rightarrow>
        (case get_col df ''date'' of
           Inl e \<Rightarrow> Inl e
         | Inr date_group \<Rightarrow>
        (let df = set_col df ''bar_number'' (map (\<lambda>n. CInt (int n)) (cumcount date_group));
             df = set_col df ''end_of_day'' (replicate (len df) (CBool False))
         in case del_col df ''date'' of
              Inl e \<Rightarrow> Inl e
            | Inr df \<Rightarrow>
           (case loc_set df (tail1_index (index df) date_group) ''end_of_day'' (CBool True) of
              Inl e \<Rightarrow> Inl e
            | Inr df \<Rightarrow>
           (case set_index df ''datetime'' of
              Inl e \<Rightarrow> Inl e
            | Inr df \<Rightarrow> del_col df ''datetime''))))))"

text \<open>Lines 331 to 368 together: the lines after the preamble, to the frame.\<close>

definition frame_of_lines :: "pyenv \<Rightarrow> int \<Rightarrow> string list \<Rightarrow> pyerror + dataframe" where
  "frame_of_lines env interval lines =
     (case parse_lines env interval (None, []) lines of
        Inl e \<Rightarrow> Inl e
      | Inr st \<Rightarrow> build_frame env (snd st))"

subsection \<open>The whole function\<close>

definition get_google_data :: "pyenv \<Rightarrow> string \<Rightarrow> int \<Rightarrow> string \<Rightarrow> pyerror + dataframe" where
  "get_google_data env symbol lookback_period fractal =
     (let symbol = upper symbol in
      case first_item (findall_digits fractal) of
        Inl e \<Rightarrow> Inl e
      | Inr digits \<Rightarrow>
          (let interval = 60 * int_of_digits digits;
               max_days = 50;
               lookback_period = (if lookback_period > max_days then max_days else lookback_period);
               toffset = 7;
               response = requests_get env (symbol, interval, lookback_period);
               text = split_on (CHR 0x0A) response
           in frame_of_lines env interval (drop toffset text)))"

section \<open>Daily data: \<^verbatim>\<open>get_yahoo_data\<close>\<close>

definition get_yahoo_data :: "pyenv \<Rightarrow> string \<Rightarrow> int \<Rightarrow> pyerror + dataframe" where
  "get_yahoo_data env symbol lookback_period =
     (let df = data_reader env (symbol, lookback_period) in
      if len df > 0 then
        (case reset_index df of
           Inl e \<Rightarrow> Inl e
         | Inr df \<Rightarrow>
        (let df = rename_columns (\<lambda>x. filter (\<lambda>c. c \<noteq> CHR '' '') (lower x)) df in
         case get_col df ''date'' of
           Inl e \<Rightarrow> Inl e
         | Inr dates \<Rightarrow>
        (case map_raise (to_time env) dates of
           Inl e \<Rightarrow> Inl e
         | Inr stamps \<Rightarrow>
        (case del_col (set_col df ''datetime'' stamps) ''date'' of
           Inl e \<Rightarrow> Inl e
         | Inr df \<Rightarrow>
        (case set_index df ''datetime'' of
           Inl e \<Rightarrow> Inl e
         | Inr df \<Rightarrow> del_col df ''datetime'')))))
      else Inr df)"

section \<open>The group of symbols: \<^verbatim>\<open>get_feed_data\<close>\<close>

text \<open>
  The classes \<^verbatim>\<open>Space\<close>, \<^verbatim>\<open>Group\<close> and \<^verbatim>\<open>Frame\<close> are defined in other modules of
  the package. Of a space the function reads the fractal, of a group the space and the
  members, in their order.
\<close>

record space =
  fractal :: string

record group =
  gspace :: space
  members :: "string list"

text \<open>
  Modelled from the spec: the class \<^verbatim>\<open>Frame\<close> of \<^verbatim>\<open>alphapy.frame\<close>, whose constructor
  is called at line 455. The specification describes it as the named-table store,
  \<^verbatim>\<open>register(name, table)\<close>: creating a frame registers the table under the name
  given. The store is the list of the frames registered, in the order of registration.
\<close>

record Frame =
  frame_name :: string
  frame_space :: space
  frame_df :: dataframe

definition register :: "Frame list \<Rightarrow> string \<Rightarrow> space \<Rightarrow> dataframe \<Rightarrow> Frame list" where
  "register store name sp df = store @ [\<lparr>frame_name = name, frame_space = sp, frame_df = df\<rparr>]"

text \<open>Lines 449 to 452: the feed is chosen by \<open>daily_data\<close>.\<close>

definition fetch :: "pyenv \<Rightarrow> bool \<Rightarrow> string \<Rightarrow> int \<Rightarrow> string \<Rightarrow> pyerror + dataframe" where
  "fetch env daily_data fract lookback_period item =
     (if daily_data then get_yahoo_data env item lookback_period
      else get_google_data env item lookback_period fract)"

text \<open>
  Lines 447 to 459, the loop over the members. The store changes as the loop runs, so
  the result is the exception that ended the loop (if any) and the store as it is then.
\<close>

fun feed_loop ::
  "pyenv \<Rightarrow> bool \<Rightarrow> space \<Rightarrow> int \<Rightarrow> Frame list \<Rightarrow> string list \<Rightarrow> pyerror option \<times> Frame list" where
  "feed_loop env daily_data sp lookback_period store [] = (None, store)"
| "feed_loop env daily_data sp lookback_period store (item # items) =
     (case fetch env daily_data (fractal sp) lookback_period item of
        Inl e \<Rightarrow> (Some e, store)
      | Inr df \<Rightarrow>
          if len df > 0
          then feed_loop env daily_data sp lookback_period
                 (register store (lower item) sp df) items
          else feed_loop env daily_data sp lookback_period store items)"

text \<open>The whole function: the value returned or the exception, and the store.\<close>

definition get_feed_data ::
  "pyenv \<Rightarrow> Frame list \<Rightarrow> group \<Rightarrow> int \<Rightarrow> (pyerror + bool) \<times> Frame list" where
  "get_feed_data env store g lookback_period =
     (let sp = gspace g;
          daily_data = (CHR ''d'' \<in> set (fractal sp))
      in case feed_loop env daily_data sp lookback_period store (members g) of
           (None, store') \<Rightarrow> (Inr daily_data, store')
         | (Some e, store') \<Rightarrow> (Inl e, store'))"

section \<open>A sample runtime\<close>

text \<open>
  For the concrete inputs below: a runtime that reads plain decimal literals as
  \<^verbatim>\<open>float\<close> and \<^verbatim>\<open>int\<close> do, whose local time is UTC, and whose feed is a given
  function of the symbol.
\<close>

definition all_digits :: "string \<Rightarrow> bool" where
  "all_digits s = list_all is_digit s"

definition dec_float :: "string \<Rightarrow> real option" where
  "dec_float s =
     (case split_on CHR ''.'' s of
        [ip] \<Rightarrow> if ip \<noteq> [] \<and> all_digits ip then Some (of_int (int_of_digits ip)) else None
      | [ip, fp] \<Rightarrow>
          if (ip \<noteq> [] \<or> fp \<noteq> []) \<and> all_digits ip \<and> all_digits fp
          then Some (of_int (int_of_digits ip) + of_int (int_of_digits fp) / 10 ^ length fp)
          else None
      | _ \<Rightarrow> None)"

definition dec_int :: "string \<Rightarrow> int option" where
  "dec_int s = (if s \<noteq> [] \<and> all_digits s then Some (int_of_digits s) else None)"

text \<open>The calendar date of a day number (days since 1970-01-01), as year, month, day.\<close>

definition civil_from_days :: "int \<Rightarrow> int \<times> int \<times> int" where
  "civil_from_days z0 =
     (let z = z0 + 719468;
          era = z div 146097;
          doe = z - era * 146097;
          yoe = (doe - doe div 1460 + doe div 36524 - doe div 146096) div 365;
          doy = doe - (365 * yoe + yoe div 4 - yoe div 100);
          mp = (5 * doy + 2) div 153;
          d = doy - (153 * mp + 2) div 5 + 1;
          m = (if mp < 10 then mp + 3 else mp - 9);
          y = yoe + era * 400 + (if m \<le> 2 then 1 else 0)
      in (y, m, d))"

definition digit_char :: "int \<Rightarrow> char" where
  "digit_char n = char_of (48 + nat n)"

definition two_digits :: "int \<Rightarrow> string" where
  "two_digits n = [digit_char (n div 10 mod 10), digit_char (n mod 10)]"

definition four_digits :: "int \<Rightarrow> string" where
  "four_digits n = two_digits (n div 100) @ two_digits n"

definition utc_date :: "real \<Rightarrow> string" where
  "utc_date t =
     (case civil_from_days (\<lfloor>t / 86400\<rfloor>) of
        (y, m, d) \<Rightarrow> four_digits y @ ''-'' @ two_digits m @ ''-'' @ two_digits d)"

definition sample_env :: "(string \<Rightarrow> string) \<Rightarrow> pyenv" where
  "sample_env feed =
     \<lparr>py_float = dec_float,
      py_int = dec_int,
      fromtimestamp = (\<lambda>t. if 0 \<le> t \<and> t < 253402300800 then Some t else None),
      strftime_date = utc_date,
      to_datetime = (\<lambda>c. case c of CTime t \<Rightarrow> Some t | _ \<Rightarrow> None),
      requests_get = (\<lambda>(symbol, interval, lookback). feed symbol),
      data_reader = (\<lambda>(symbol, lookback).
         \<lparr>index_name = Some ''Date'', index = [], cols = []\<rparr>)\<rparr>"

text \<open>The seven lines that precede the data in a response.\<close>

definition preamble :: "string" where
  "preamble =
     ''EXCHANGE%3DNASDAQ'' @ [CHR 0x0A] @
     ''MARKET_OPEN_MINUTE=570'' @ [CHR 0x0A] @
     ''MARKET_CLOSE_MINUTE=960'' @ [CHR 0x0A] @
     ''INTERVAL=300'' @ [CHR 0x0A] @
     ''COLUMNS=DATE,CLOSE,HIGH,LOW,OPEN,VOLUME'' @ [CHR 0x0A] @
     ''DATA='' @ [CHR 0x0A] @
     ''TIMEZONE_OFFSET=0'' @ [CHR 0x0A]"

section \<open>Properties of the rebalancing\<close>

subsection \<open>Looking up the first position\<close>

lemma np_where_map: "np_where (map P xs) = filter (\<lambda>i. P (xs ! i)) [0..<length xs]"
  unfolding np_where_def length_map by (intro filter_cong refl) simp

lemma first_where_none:
  assumes "\<forall>x\<in>set xs. \<not> P x"
  shows "first_item (np_where (map P xs)) = Inl IndexError"
proof -
  have "filter (\<lambda>i. P (xs ! i)) [0..<length xs] = []"
    using assms by (auto simp: filter_empty_conv)
  then show ?thesis by (simp add: np_where_map first_item_def)
qed

lemma first_where_some:
  assumes "\<exists>x\<in>set xs. P x"
  shows "\<exists>i. first_item (np_where (map P xs)) = Inr i \<and> i < length xs \<and> P (xs ! i)
             \<and> (\<forall>j<i. \<not> P (xs ! j))"
proof -
  let ?f = "filter (\<lambda>i. P (xs ! i)) [0..<length xs]"
  from assms obtain k where k: "k < length xs" "P (xs ! k)"
    by (auto simp: in_set_conv_nth)
  then have "k \<in> set ?f" by simp
  then obtain i rest where f: "?f = i # rest" by (cases ?f) auto
  then have "i \<in> set ?f" by simp
  then have i: "i < length xs" "P (xs ! i)" by auto
  have srt: "sorted ?f" by (simp add: sorted_wrt_filter)
  have "\<forall>j<i. \<not> P (xs ! j)"
  proof (intro allI impI notI)
    fix j assume "j < i" "P (xs ! j)"
    with i have "j \<in> set ?f" by simp
    with f srt \<open>j < i\<close> show False by auto
  qed
  with f i show ?thesis by (simp add: np_where_map first_item_def)
qed

subsection \<open>The three outcomes of the estimate\<close>

lemma estimate_ratio_absent:
  assumes "tv \<notin> set y"
  shows "estimate_ratio y tv = Inl IndexError"
proof -
  have "first_item (np_where (map (\<lambda>v. v = tv) (sort (remdups y)))) = Inl IndexError"
    using assms by (intro first_where_none) auto
  then show ?thesis by (simp add: estimate_ratio_def np_unique_def Let_def)
qed

lemma estimate_ratio_single:
  assumes "tv \<in> set y" "\<forall>v\<in>set y. v = tv"
  shows "estimate_ratio y tv = Inl IndexError"
proof -
  have "\<exists>x\<in>set (sort (remdups y)). x = tv" using assms(1) by simp
  from first_where_some[of "sort (remdups y)" "\<lambda>v. v = tv", OF this]
  obtain i where "first_item (np_where (map (\<lambda>v. v = tv) (sort (remdups y)))) = Inr i"
    by blast
  moreover have "\<forall>x\<in>set (sort (remdups y)). \<not> x \<noteq> tv" using assms(2) by simp
  from first_where_none[of "sort (remdups y)" "\<lambda>v. v \<noteq> tv", OF this]
  have "first_item (np_where (map (\<lambda>v. v \<noteq> tv) (sort (remdups y)))) = Inl IndexError" .
  ultimately show ?thesis by (simp add: estimate_ratio_def np_unique_def Let_def)
qed

lemma estimate_ratio_two:
  assumes t: "tv \<in> set y" and o: "\<exists>v\<in>set y. v \<noteq> tv"
  shows "estimate_ratio y tv =
           Inr (Finite (real (count_list y (Min (set y - {tv}))) / real (count_list y tv) - 1))"
proof -
  let ?uv = "sort (remdups y)"
  have "\<exists>x\<in>set ?uv. x = tv" using t by simp
  from first_where_some[of ?uv "\<lambda>v. v = tv", OF this]
  obtain ti where ti: "first_item (np_where (map (\<lambda>v. v = tv) ?uv)) = Inr ti"
      "ti < length ?uv" "?uv ! ti = tv"
    by blast
  have "\<exists>x\<in>set ?uv. x \<noteq> tv" using o by simp
  from first_where_some[of ?uv "\<lambda>v. v \<noteq> tv", OF this]
  obtain ni where ni: "first_item (np_where (map (\<lambda>v. v \<noteq> tv) ?uv)) = Inr ni"
      "ni < length ?uv" "?uv ! ni \<noteq> tv" "\<forall>j<ni. \<not> (?uv ! j \<noteq> tv)"
    by blast
  have "?uv ! ni \<in> set ?uv" using ni(2) by (rule nth_mem)
  then have nin: "?uv ! ni \<in> set y - {tv}" using ni(3) by simp
  have least: "?uv ! ni \<le> v" if v: "v \<in> set y - {tv}" for v
  proof -
    from v have "v \<in> set ?uv" by simp
    then obtain k where k: "k < length ?uv" "?uv ! k = v"
      unfolding in_set_conv_nth by blast
    have "\<not> k < ni" using ni(4) k(2) v by auto
    then have "ni \<le> k" by simp
    then have "?uv ! ni \<le> ?uv ! k" using k(1) by (intro sorted_nth_mono) simp_all
    then show ?thesis using k(2) by simp
  qed
  have minv: "Min (set y - {tv}) = ?uv ! ni"
    using nin least by (intro Min_eqI) simp_all
  have cpos: "count_list y tv \<noteq> 0" using t by (simp add: count_list_0_iff)
  show ?thesis
    using ti ni(1,2) cpos
    by (simp add: estimate_ratio_def np_unique_def Let_def np_true_divide_def np_subtract_def minv)
qed

lemma estimate_ratio_cases:
  "estimate_ratio y tv = Inl IndexError \<or> (\<exists>r. estimate_ratio y tv = Inr (Finite r))"
proof (cases "tv \<in> set y")
  case False
  then have "estimate_ratio y tv = Inl IndexError" by (rule estimate_ratio_absent)
  then show ?thesis by (rule disjI1)
next
  case True
  show ?thesis
  proof (cases "\<exists>v\<in>set y. v \<noteq> tv")
    case True
    from estimate_ratio_two[OF \<open>tv \<in> set y\<close> True] show ?thesis by blast
  next
    case False
    then have "\<forall>v\<in>set y. v = tv" by blast
    from estimate_ratio_single[OF \<open>tv \<in> set y\<close> this] show ?thesis by (rule disjI1)
  qed
qed

lemma choose_sampler_supported:
  "meth \<in> set supported_methods \<Longrightarrow> \<exists>s. choose_sampler meth r = Inr s"
  by (auto simp: supported_methods_def choose_sampler_def)

lemma choose_sampler_unsupported:
  "meth \<notin> set supported_methods \<Longrightarrow>
     choose_sampler meth r = Inl (ValueError (''Unknown Sampling Method '' @ method_str meth))"
  by (simp add: supported_methods_def choose_sampler_def)

lemma sampling_ratio_of_cases:
  "sampling_ratio_of m = Inl IndexError \<or> (\<exists>r. sampling_ratio_of m = Inr (Finite r))"
  using estimate_ratio_cases[of "y_train m" "target_value m"]
  by (simp add: sampling_ratio_of_def)

lemma sample_data_ratio_error:
  "sampling_ratio_of m = Inl e \<Longrightarrow> sample_data fit m = (Some e, m)"
  by (simp add: sample_data_def)

lemma sample_data_unsupported:
  assumes "sampling_ratio_of m = Inr r" "sampling_method m \<notin> set supported_methods"
  shows "sample_data fit m =
           (Some (ValueError (''Unknown Sampling Method '' @ method_str (sampling_method m))), m)"
  using assms choose_sampler_unsupported[of "sampling_method m" r]
  by (simp add: sample_data_def)

lemma sample_data_supported:
  assumes "sampling_ratio_of m = Inr r" "sampling_method m \<in> set supported_methods"
  shows "\<exists>s. choose_sampler (sampling_method m) r = Inr s \<and>
           sample_data fit m =
             (case fit s (X_train m) (y_train m) of
                Inl e \<Rightarrow> (Some e, m)
              | Inr (X, y) \<Rightarrow> (None, m\<lparr>X_train := X, y_train := y\<rparr>))"
proof -
  from choose_sampler_supported[OF assms(2), of r]
  obtain s where s: "choose_sampler (sampling_method m) r = Inr s" by blast
  then have "sample_data fit m =
             (case fit s (X_train m) (y_train m) of
                Inl e \<Rightarrow> (Some e, m)
              | Inr (X, y) \<Rightarrow> (None, m\<lparr>X_train := X, y_train := y\<rparr>))"
    using assms(1) by (simp add: sample_data_def)
  with s show ?thesis by blast
qed

subsection \<open>Claim C3: the degenerate ratio\<close>

text \<open>
  C3 as the specification has it: with an auto-estimated ratio and no occurrence of the
  target class in \<open>y\<close>, the estimation fails with a ZeroDivision-class error. The code
  does fail, but at the lookup of the target among the distinct values (line 233), with
  \<open>IndexError\<close>: here \<open>y = [0, 0, 1]\<close> and the target is \<open>2\<close>.
\<close>

theorem degenerate_ratio_not_zero_division:
  "count_list [0, 0, 1] (2::int) = 0
   \<and> sampling_ratio_of \<lparr>sampling_method = over_random, sampling_ratio = 0, target_value = 2::int,
        X_train = (), y_train = [0, 0, 1]\<rparr> \<noteq> Inl ZeroDivisionError"
  by (simp add: sampling_ratio_of_def estimate_ratio_def np_unique_def np_where_def first_item_def)

text \<open>
  C3, amended: when the configured ratio is not positive and the target class does not
  occur in \<open>y\<close>, the ratio stage fails with \<open>IndexError\<close>. It never fails with a
  division by zero and never yields a non-finite ratio, because every count that
  \<^verbatim>\<open>np.unique\<close> returns is positive.
\<close>

theorem degenerate_ratio_is_index_error:
  "(sampling_ratio m \<le> 0 \<and> count_list (y_train m) (target_value m) = 0
      \<longrightarrow> sampling_ratio_of m = Inl IndexError)
   \<and> sampling_ratio_of m \<noteq> Inl ZeroDivisionError
   \<and> sampling_ratio_of m \<noteq> Inr NonFinite"
proof (intro conjI impI)
  assume a: "sampling_ratio m \<le> 0 \<and> count_list (y_train m) (target_value m) = 0"
  then have "target_value m \<notin> set (y_train m)" by (simp add: count_list_0_iff)
  then have "estimate_ratio (y_train m) (target_value m) = Inl IndexError"
    by (rule estimate_ratio_absent)
  with a show "sampling_ratio_of m = Inl IndexError" by (simp add: sampling_ratio_of_def)
next
  show "sampling_ratio_of m \<noteq> Inl ZeroDivisionError"
    using sampling_ratio_of_cases[of m] by auto
next
  show "sampling_ratio_of m \<noteq> Inr NonFinite"
    using sampling_ratio_of_cases[of m] by auto
qed

theorem degenerate_ratio_is_index_error_witness:
  "count_list [0, 0, 1] (2::int) = 0
   \<and> sampling_ratio_of \<lparr>sampling_method = over_random, sampling_ratio = 0, target_value = 2::int,
        X_train = (), y_train = [0, 0, 1]\<rparr> = Inl IndexError"
  using degenerate_ratio_is_index_error
    [of "\<lparr>sampling_method = over_random, sampling_ratio = 0, target_value = 2::int,
        X_train = (), y_train = [0, 0, 1]\<rparr>"]
  by simp

subsection \<open>Claim C4: the ratio formula\<close>

text \<open>
  C4 as the specification has it: for every \<open>y\<close> that contains the target value the
  estimate is \<open>nontarget_count / target_count - 1\<close>. A vector that holds the target
  and nothing else has no other class to count: the lookup of line 234 raises.
\<close>

theorem ratio_single_class_raises:
  "(1::int) \<in> set [1] \<and> estimate_ratio [1::int] 1 = Inl IndexError"
  by (simp add: estimate_ratio_def np_unique_def np_where_def first_item_def)

text \<open>
  C4, amended: for every \<open>y\<close> that contains the target value and at least one other
  value, the estimate is \<open>nontarget_count / target_count - 1\<close>, the non-target class
  being the least value of \<open>y\<close> other than the target (the first one in the sorted
  distinct values). For \<open>y = [A, A, A, B]\<close> and target \<open>B\<close> it is \<open>2\<close>; for
  \<open>y = [A, B]\<close> and target \<open>A\<close> it is \<open>0\<close>.
\<close>

theorem ratio_formula:
  "(tv \<in> set y \<and> (\<exists>v\<in>set y. v \<noteq> tv) \<longrightarrow>
      estimate_ratio y tv =
        Inr (Finite (real (count_list y (Min (set y - {tv}))) / real (count_list y tv) - 1)))
   \<and> (A \<noteq> B \<longrightarrow> estimate_ratio [A, A, A, B] B = Inr (Finite 2))
   \<and> (A \<noteq> B \<longrightarrow> estimate_ratio [A, B] A = Inr (Finite 0))"
proof (intro conjI impI)
  assume "tv \<in> set y \<and> (\<exists>v\<in>set y. v \<noteq> tv)"
  then show "estimate_ratio y tv =
        Inr (Finite (real (count_list y (Min (set y - {tv}))) / real (count_list y tv) - 1))"
    by (intro estimate_ratio_two) simp_all
next
  assume ab: "A \<noteq> B"
  then have s: "set [A, A, A, B] - {B} = {A}" by auto
  have "estimate_ratio [A, A, A, B] B =
       Inr (Finite (real (count_list [A, A, A, B] (Min (set [A, A, A, B] - {B})))
              / real (count_list [A, A, A, B] B) - 1))"
    using ab by (intro estimate_ratio_two) auto
  then show "estimate_ratio [A, A, A, B] B = Inr (Finite 2)" using ab unfolding s by simp
next
  assume ab: "A \<noteq> B"
  then have s: "set [A, B] - {A} = {B}" by auto
  have "estimate_ratio [A, B] A =
       Inr (Finite (real (count_list [A, B] (Min (set [A, B] - {A})))
              / real (count_list [A, B] A) - 1))"
    using ab by (intro estimate_ratio_two) auto
  then show "estimate_ratio [A, B] A = Inr (Finite 0)" using ab unfolding s by simp
qed

theorem ratio_formula_witness:
  "(1::int) \<in> set [0, 0, 0, 1] \<and> (\<exists>v\<in>set [0, 0, 0, 1::int]. v \<noteq> 1) \<and> (0::int) \<noteq> 1
   \<and> estimate_ratio [0, 0, 0, 1::int] 1 =
        Inr (Finite (real (count_list [0, 0, 0, 1::int] (Min (set [0, 0, 0, 1] - {1})))
               / real (count_list [0, 0, 0, 1::int] 1) - 1))
   \<and> estimate_ratio [0, 0, 0, 1::int] 1 = Inr (Finite 2)
   \<and> estimate_ratio [0, 1::int] 0 = Inr (Finite 0)"
proof -
  note t = ratio_formula[of "1::int" "[0, 0, 0, 1]" "0::int" "1::int"]
  have a: "(1::int) \<in> set [0, 0, 0, 1]" by simp
  have b: "\<exists>v\<in>set [0, 0, 0, 1::int]. v \<noteq> 1" by simp
  have c: "(0::int) \<noteq> 1" by simp
  from t a b c show ?thesis by blast
qed

subsection \<open>Claim C5: the method dispatch\<close>

text \<open>
  C5 as the specification has it: rebalancing raises if and only if the configured
  method is outside the supported enumeration. With the supported method
  \<open>under_random\<close>, an auto-estimated ratio and a \<open>y\<close> without the target value,
  rebalancing raises all the same.
\<close>

theorem supported_method_still_raises:
  "under_random \<in> set supported_methods
   \<and> fst (sample_data keep_all \<lparr>sampling_method = under_random, sampling_ratio = 0,
         target_value = 1, X_train = (), y_train = [0, 0]\<rparr>) = Some IndexError"
  by (simp add: supported_methods_def sample_data_def sampling_ratio_of_def estimate_ratio_def
        np_unique_def np_where_def first_item_def)

text \<open>
  C5, amended: once the ratio stage has returned, rebalancing with a method outside the
  supported enumeration raises \<open>ValueError\<close> with the text
  \<^verbatim>\<open>Unknown Sampling Method\<close> followed by the method, whatever the resampling
  algorithm is, and leaves the model as it was; with a supported method the dispatch
  raises nothing and the outcome is that of the chosen sampler. When the ratio stage
  raises, that exception is the outcome and the model is as it was.
\<close>

theorem dispatch_after_ratio:
  "(sampling_ratio_of m = Inr r \<and> sampling_method m \<notin> set supported_methods \<longrightarrow>
      sample_data fit m =
        (Some (ValueError (''Unknown Sampling Method '' @ method_str (sampling_method m))), m))
   \<and> (sampling_ratio_of m = Inr r \<and> sampling_method m \<in> set supported_methods \<longrightarrow>
        (\<exists>s. choose_sampler (sampling_method m) r = Inr s \<and>
           sample_data fit m =
             (case fit s (X_train m) (y_train m) of
                Inl e \<Rightarrow> (Some e, m)
              | Inr (X, y) \<Rightarrow> (None, m\<lparr>X_train := X, y_train := y\<rparr>))))
   \<and> (sampling_ratio_of m = Inl e \<longrightarrow> sample_data fit m = (Some e, m))"
  using sample_data_unsupported[of m r fit] sample_data_supported[of m r fit]
    sample_data_ratio_error[of m e fit]
  by blast

theorem dispatch_after_ratio_witness:
  "sample_data keep_all \<lparr>sampling_method = other_method ''bogus'', sampling_ratio = 2,
         target_value = 1, X_train = (), y_train = [0, 0]\<rparr>
     = (Some (ValueError ''Unknown Sampling Method bogus''),
        \<lparr>sampling_method = other_method ''bogus'', sampling_ratio = 2,
         target_value = 1, X_train = (), y_train = [0, 0]\<rparr>)
   \<and> sample_data keep_all \<lparr>sampling_method = over_random, sampling_ratio = 2,
         target_value = 1, X_train = (), y_train = [0, 0]\<rparr>
     = (None, \<lparr>sampling_method = over_random, sampling_ratio = 2,
         target_value = 1, X_train = (), y_train = [0, 0]\<rparr>)
   \<and> sample_data keep_all \<lparr>sampling_method = over_random, sampling_ratio = 0,
         target_value = 1, X_train = (), y_train = [0, 0]\<rparr>
     = (Some IndexError, \<lparr>sampling_method = over_random, sampling_ratio = 0,
         target_value = 1, X_train = (), y_train = [0, 0]\<rparr>)"
  using dispatch_after_ratio[of "\<lparr>sampling_method = other_method ''bogus'', sampling_ratio = 2,
         target_value = 1::int, X_train = (), y_train = [0, 0]\<rparr>" "Finite 2" keep_all IndexError]
    dispatch_after_ratio[of "\<lparr>sampling_method = over_random, sampling_ratio = 2,
         target_value = 1::int, X_train = (), y_train = [0, 0]\<rparr>" "Finite 2" keep_all IndexError]
    dispatch_after_ratio[of "\<lparr>sampling_method = over_random, sampling_ratio = 0,
         target_value = 1::int, X_train = (), y_train = [0, 0]\<rparr>" "Finite 2" keep_all IndexError]
  by (simp add: supported_methods_def sampling_ratio_of_def estimate_ratio_def
        np_unique_def np_where_def first_item_def choose_sampler_def keep_all_def)

subsection \<open>Claim C10: the ratio is estimated before the method is looked at\<close>

text \<open>
  C10: when the configured ratio is not positive and \<open>y_train\<close> does not contain the
  target value, rebalancing fails in the estimation, with \<open>IndexError\<close>, for every
  method (one that never uses the ratio, or an unknown one) and every resampling
  algorithm; the model is left as it was. The unknown-method error is not reached.
\<close>

theorem estimation_precedes_dispatch:
  "sampling_ratio m \<le> 0 \<Longrightarrow> target_value m \<notin> set (y_train m) \<Longrightarrow>
     sample_data fit m = (Some IndexError, m)"
proof -
  assume a: "sampling_ratio m \<le> 0" and b: "target_value m \<notin> set (y_train m)"
  have "sampling_ratio_of m = Inl IndexError"
    using a estimate_ratio_absent[OF b] by (simp add: sampling_ratio_of_def)
  then show ?thesis by (rule sample_data_ratio_error)
qed

theorem estimation_precedes_dispatch_witness:
  "(0::real) \<le> 0 \<and> (1::int) \<notin> set [0, 0]
   \<and> sample_data keep_all \<lparr>sampling_method = other_method ''bogus'', sampling_ratio = 0,
         target_value = 1, X_train = (), y_train = [0, 0]\<rparr>
       = (Some IndexError, \<lparr>sampling_method = other_method ''bogus'', sampling_ratio = 0,
         target_value = 1, X_train = (), y_train = [0, 0]\<rparr>)
   \<and> sample_data keep_all \<lparr>sampling_method = under_random, sampling_ratio = 0,
         target_value = 1, X_train = (), y_train = [0, 0]\<rparr>
       = (Some IndexError, \<lparr>sampling_method = under_random, sampling_ratio = 0,
         target_value = 1, X_train = (), y_train = [0, 0]\<rparr>)"
  using estimation_precedes_dispatch[of "\<lparr>sampling_method = other_method ''bogus'', sampling_ratio = 0,
         target_value = 1::int, X_train = (), y_train = [0, 0]\<rparr>" keep_all]
   estimation_precedes_dispatch[of "\<lparr>sampling_method = under_random, sampling_ratio = 0,
         target_value = 1::int, X_train = (), y_train = [0, 0]\<rparr>" keep_all]
  by simp

end
